theory Spec2Isabelle
  imports Complex_Main
begin

section \<open>Python values of bot.py\<close>

text \<open>
  The market-data core of \<^verbatim>\<open>bot.py\<close> (lines 38 to 174) is embedded function by
  function.  Python is dynamically typed, so the values that flow through the cache and
  out of the fetchers are modelled by one small universe \<open>pyval\<close>.

  A Python \<^verbatim>\<open>float\<close> is modelled by the real number it denotes, or one of the three
  special values; rounding is not modelled.  The source only compares a float with zero
  and tests its truthiness, and both depend on nothing but the sign.

  Clock readings (\<^verbatim>\<open>time.time()\<close>) are reals, in seconds.

  A Python \<^verbatim>\<open>str\<close> is modelled as a HOL \<open>string\<close>; the digit class and the
  case-folding of the regular expressions are those of ASCII.
\<close>

type_synonym time = real

datatype pyfloat = Finite real | PosInf | NegInf | NaN

datatype pyval =
    PNone
  | PInt int
  | PFloat pyfloat
  | PStr string
  | PTuple "pyval list"

text \<open>The value \<^verbatim>\<open>response.json()\<close> returns: a parsed JSON document.  The items of an
  object are kept in a list with the key first; a key is looked up from the front.\<close>

datatype json =
    JNull
  | JBool bool
  | JInt int
  | JFloat pyfloat
  | JStr string
  | JArr "json list"
  | JObj "(string \<times> json) list"

text \<open>The exceptions (all subclasses of \<^verbatim>\<open>Exception\<close>) that the calls of the core can
  raise.\<close>

datatype exn =
    ConnectionError
  | Timeout
  | HTTPError
  | JSONDecodeError
  | TypeError
  | KeyError
  | ValueError
  | OverflowError
  | ParserError

text \<open>Sequencing of computations that may raise: the first exception wins.\<close>

definition ebind :: "exn + 'a \<Rightarrow> ('a \<Rightarrow> exn + 'b) \<Rightarrow> exn + 'b" where
  "ebind m f = (case m of Inl e \<Rightarrow> Inl e | Inr x \<Rightarrow> f x)"

text \<open>\<^verbatim>\<open>price > 0\<close> on a float: false for NaN.\<close>

fun float_gt_zero :: "pyfloat \<Rightarrow> bool" where
  "float_gt_zero (Finite r) = (0 < r)"
| "float_gt_zero PosInf = True"
| "float_gt_zero NegInf = False"
| "float_gt_zero NaN = False"

text \<open>A float that is less than or equal to zero (again false for NaN).\<close>

fun float_le_zero :: "pyfloat \<Rightarrow> bool" where
  "float_le_zero (Finite r) = (r \<le> 0)"
| "float_le_zero PosInf = False"
| "float_le_zero NegInf = True"
| "float_le_zero NaN = False"

text \<open>Truth value testing, as \<^verbatim>\<open>if cached:\<close> and \<^verbatim>\<open>if not html:\<close> apply it.\<close>

fun truthy :: "pyval \<Rightarrow> bool" where
  "truthy PNone = False"
| "truthy (PInt i) = (i \<noteq> 0)"
| "truthy (PFloat (Finite r)) = (r \<noteq> 0)"
| "truthy (PFloat PosInf) = True"
| "truthy (PFloat NegInf) = True"
| "truthy (PFloat NaN) = True"
| "truthy (PStr s) = (s \<noteq> [])"
| "truthy (PTuple xs) = (xs \<noteq> [])"

section \<open>Configuration (lines 38 to 48)\<close>

definition USER_AGENT :: string where
  "USER_AGENT = ''Mozilla/5.0 (Windows NT 10.0; Win64; x64) AppleWebKit/537.36 (KHTML, like Gecko) Chrome/120.0.0.0 Safari/537.36''"

definition REQUEST_TIMEOUT :: int where
  "REQUEST_TIMEOUT = 15"

definition CACHE_TTL :: real where
  "CACHE_TTL = 60"

section \<open>State and the outside world\<close>

text \<open>One outbound call \<^verbatim>\<open>requests.get(url, headers=..., timeout=...)\<close>, with the
  keyword arguments it was given (\<open>None\<close> for one that was left out).\<close>

record request =
  url :: string
  headers :: "(string \<times> string) list option"
  timeout :: "int option"

text \<open>What the source reads of a \<^verbatim>\<open>requests.Response\<close>: the status code, the body as
  text, and the result of decoding the body as JSON (which may raise).\<close>

record response =
  status_code :: nat
  body_text :: string
  json_body :: "exn + json"

text \<open>The mutable state: the module-level dictionary \<^verbatim>\<open>_cache\<close>, which maps a key to
  \<^verbatim>\<open>(value, timestamp)\<close>, and the log of the requests sent so far.\<close>

record state =
  cache :: "string \<rightharpoonup> (pyval \<times> time)"
  requests :: "request list"

definition initial_state :: state where
  "initial_state = \<lparr>cache = Map.empty, requests = []\<rparr>"

section \<open>The cache (lines 73 to 84)\<close>

definition get_cached :: "time \<Rightarrow> string \<Rightarrow> state \<Rightarrow> pyval \<times> state" where
  "get_cached now key s =
     (case cache s key of
        Some (val, timestamp) \<Rightarrow>
          if now - timestamp < CACHE_TTL then (val, s) else (PNone, s)
      | None \<Rightarrow> (PNone, s))"

definition set_cached :: "time \<Rightarrow> string \<Rightarrow> pyval \<Rightarrow> state \<Rightarrow> state" where
  "set_cached now key val s = s\<lparr>cache := (cache s)(key \<mapsto> (val, now))\<rparr>"

section \<open>HTTP (lines 55 to 70)\<close>

text \<open>\<^verbatim>\<open>requests.get\<close>: the request is sent (and logged); the reply is what the
  network does with it, an exception or a response.\<close>

definition log_request :: "request \<Rightarrow> state \<Rightarrow> state" where
  "log_request rq s = s\<lparr>requests := requests s @ [rq]\<rparr>"

definition http_get :: "request \<Rightarrow> exn + response \<Rightarrow> state \<Rightarrow> (exn + response) \<times> state" where
  "http_get rq reply s = (reply, log_request rq s)"

text \<open>\<^verbatim>\<open>response.raise_for_status()\<close> raises for a 4xx or 5xx status code.\<close>

definition raise_for_status :: "response \<Rightarrow> exn + unit" where
  "raise_for_status r =
     (if 400 \<le> status_code r \<and> status_code r < 600 then Inl HTTPError else Inr ())"

definition browser_headers :: "(string \<times> string) list" where
  "browser_headers =
     [(''User-Agent'', USER_AGENT),
      (''Accept'', ''text/html,application/xhtml+xml,application/xml;q=0.9,*/*;q=0.8''),
      (''Accept-Language'', ''en-US,en;q=0.9''),
      (''Accept-Encoding'', ''gzip, deflate''),
      (''Connection'', ''keep-alive'')]"

definition html_request :: "string \<Rightarrow> request" where
  "html_request u = \<lparr>url = u, headers = Some browser_headers, timeout = Some REQUEST_TIMEOUT\<rparr>"

text \<open>\<^verbatim>\<open>fetch_html(url)\<close>: the text of the page, or \<open>None\<close> after any exception.\<close>

definition fetch_html :: "exn + response \<Rightarrow> string \<Rightarrow> state \<Rightarrow> string option \<times> state" where
  "fetch_html reply u s =
     (case http_get (html_request u) reply s of
        (Inl e, s1) \<Rightarrow> (None, s1)
      | (Inr resp, s1) \<Rightarrow>
          (case raise_for_status resp of
             Inl e \<Rightarrow> (None, s1)
           | Inr _ \<Rightarrow> (Some (body_text resp), s1)))"

section \<open>The outside world of one call\<close>

text \<open>
  Everything a call of the core reads from outside the module: the clock at each
  \<^verbatim>\<open>time.time()\<close>, the reply to each request (used only if the request is sent), the
  formatted \<^verbatim>\<open>datetime.now()\<close>, and the two library functions whose code is not part
  of the repository: \<^verbatim>\<open>float\<close> on a string (\<open>None\<close> for \<^verbatim>\<open>ValueError\<close>) and
  \<^verbatim>\<open>BeautifulSoup(html, "lxml").get_text()\<close>.
\<close>

record world =
  now_get_price :: time
  ticker_reply :: "exn + response"
  now_set_price :: time
  now_get_fear :: time
  page_reply :: "exn + response"
  now_set_fear :: time
  wall_clock :: string
  float_of_str :: "string \<Rightarrow> pyfloat option"
  soup_get_text :: "string \<Rightarrow> exn + string"

section \<open>The price fetcher (lines 87 to 113)\<close>

fun starts_with :: "string \<Rightarrow> string \<Rightarrow> bool" where
  "starts_with [] s = True"
| "starts_with (p # ps) [] = False"
| "starts_with (p # ps) (c # cs) = (p = c \<and> starts_with ps cs)"

fun is_substring :: "string \<Rightarrow> string \<Rightarrow> bool" where
  "is_substring p [] = (p = [])"
| "is_substring p (c # cs) = (starts_with p (c # cs) \<or> is_substring p cs)"

text \<open>\<^verbatim>\<open>key in data\<close> for a string key: membership of a key in a dict, of an element
  in a list, of a substring in a string; \<^verbatim>\<open>TypeError\<close> on anything else.\<close>

fun py_in :: "string \<Rightarrow> json \<Rightarrow> exn + bool" where
  "py_in k (JObj items) = Inr (k \<in> set (map fst items))"
| "py_in k (JArr xs) = Inr (JStr k \<in> set xs)"
| "py_in k (JStr s) = Inr (is_substring k s)"
| "py_in k JNull = Inl TypeError"
| "py_in k (JBool b) = Inl TypeError"
| "py_in k (JInt i) = Inl TypeError"
| "py_in k (JFloat f) = Inl TypeError"

text \<open>\<^verbatim>\<open>data[key]\<close> for a string key.\<close>

fun py_getitem :: "json \<Rightarrow> string \<Rightarrow> exn + json" where
  "py_getitem (JObj items) k = (case map_of items k of Some v \<Rightarrow> Inr v | None \<Rightarrow> Inl KeyError)"
| "py_getitem (JArr xs) k = Inl TypeError"
| "py_getitem (JStr s) k = Inl TypeError"
| "py_getitem JNull k = Inl TypeError"
| "py_getitem (JBool b) k = Inl TypeError"
| "py_getitem (JInt i) k = Inl TypeError"
| "py_getitem (JFloat f) k = Inl TypeError"

text \<open>\<^verbatim>\<open>float(x)\<close>.  An integer too large for a double raises \<^verbatim>\<open>OverflowError\<close>.\<close>

fun py_float :: "(string \<Rightarrow> pyfloat option) \<Rightarrow> json \<Rightarrow> exn + pyfloat" where
  "py_float parse (JFloat f) = Inr f"
| "py_float parse (JInt i) =
     (if \<bar>i\<bar> < 2 ^ 1024 - 2 ^ 970 then Inr (Finite (real_of_int i)) else Inl OverflowError)"
| "py_float parse (JBool b) = Inr (Finite (if b then 1 else 0))"
| "py_float parse (JStr s) = (case parse s of Some f \<Rightarrow> Inr f | None \<Rightarrow> Inl ValueError)"
| "py_float parse JNull = Inl TypeError"
| "py_float parse (JArr xs) = Inl TypeError"
| "py_float parse (JObj items) = Inl TypeError"

text \<open>Lines 104 and 105: \<open>Some price\<close> when both membership tests hold, \<open>None\<close> when
  the condition is false.  Python's \<^verbatim>\<open>and\<close> evaluates its right operand only if the
  left one is true.\<close>

definition usd_last :: "(string \<Rightarrow> pyfloat option) \<Rightarrow> json \<Rightarrow> exn + pyfloat option" where
  "usd_last parse data =
     ebind (py_in ''USD'' data) (\<lambda>has_usd.
       if \<not> has_usd then Inr None
       else ebind (py_getitem data ''USD'') (\<lambda>usd.
         ebind (py_in ''last'' usd) (\<lambda>has_last.
           if \<not> has_last then Inr None
           else ebind (py_getitem usd ''last'') (\<lambda>last.
             ebind (py_float parse last) (\<lambda>price. Inr (Some price))))))"

definition ticker_request :: request where
  "ticker_request =
     \<lparr>url = ''https://blockchain.info/ticker'', headers = None, timeout = Some REQUEST_TIMEOUT\<rparr>"

text \<open>The body of the \<^verbatim>\<open>try\<close> (lines 99 to 108): it raises, or returns the price
  (\<open>Some\<close>), or falls through to line 113 (\<open>None\<close>).\<close>

definition fetch_btc_price_try :: "world \<Rightarrow> state \<Rightarrow> (exn + pyval option) \<times> state" where
  "fetch_btc_price_try w s =
     (case http_get ticker_request (ticker_reply w) s of
        (Inl e, s1) \<Rightarrow> (Inl e, s1)
      | (Inr resp, s1) \<Rightarrow>
          (case ebind (raise_for_status resp) (\<lambda>_.
                  ebind (json_body resp) (usd_last (float_of_str w))) of
             Inl e \<Rightarrow> (Inl e, s1)
           | Inr None \<Rightarrow> (Inr None, s1)
           | Inr (Some price) \<Rightarrow>
               if float_gt_zero price
               then (Inr (Some (PFloat price)),
                     set_cached (now_set_price w) ''btc_price'' (PFloat price) s1)
               else (Inr None, s1)))"

definition fetch_btc_price :: "world \<Rightarrow> state \<Rightarrow> pyval \<times> state" where
  "fetch_btc_price w s =
     (case get_cached (now_get_price w) ''btc_price'' s of
        (cached, s0) \<Rightarrow>
          if truthy cached then (cached, s0)
          else (case fetch_btc_price_try w s0 of
                  (Inl e, s1) \<Rightarrow> (PNone, s1)
                | (Inr None, s1) \<Rightarrow> (PNone, s1)
                | (Inr (Some price), s1) \<Rightarrow> (price, s1)))"

section \<open>The sentiment fetcher (lines 116 to 161)\<close>

definition is_digit :: "char \<Rightarrow> bool" where
  "is_digit c = (c \<in> set ''0123456789'')"

definition lower :: "char \<Rightarrow> char" where
  "lower c =
     (if c \<in> set ''ABCDEFGHIJKLMNOPQRSTUVWXYZ''
      then char_of (of_char c + (32::nat)) else c)"

text \<open>Does \<open>s\<close> start with the token, ignoring case?\<close>

fun starts_with_ci :: "string \<Rightarrow> string \<Rightarrow> bool" where
  "starts_with_ci [] s = True"
| "starts_with_ci (p # ps) [] = False"
| "starts_with_ci (p # ps) (c # cs) = (lower p = lower c \<and> starts_with_ci ps cs)"

text \<open>
  The pattern \<^verbatim>\<open>TOKEN[^\d]*(\d{1,3})\<close> anchored at the start of \<open>s\<close>, returning
  group 1.  After the token the greedy \<^verbatim>\<open>[^\d]*\<close> takes every non-digit; giving some
  back cannot help, since the character after a shorter run is a non-digit.  Then the
  greedy \<^verbatim>\<open>\d{1,3}\<close> takes up to three digits and needs at least one.
\<close>

definition match_at :: "string \<Rightarrow> string \<Rightarrow> string option" where
  "match_at tok s =
     (if starts_with_ci tok s
      then (let rest = dropWhile (\<lambda>c. \<not> is_digit c) (drop (length tok) s);
                grp = takeWhile is_digit (take 3 rest)
            in if grp = [] then None else Some grp)
      else None)"

text \<open>\<^verbatim>\<open>re.search(pattern, text, re.IGNORECASE)\<close>: the match at the leftmost position
  where the pattern matches; the result is group 1.\<close>

fun re_search :: "string \<Rightarrow> string \<Rightarrow> string option" where
  "re_search tok [] = match_at tok []"
| "re_search tok (c # cs) =
     (case match_at tok (c # cs) of
        Some grp \<Rightarrow> Some grp
      | None \<Rightarrow> re_search tok cs)"


text \<open>\<^verbatim>\<open>int(s)\<close> on a string of decimal digits.\<close>

definition digit_value :: "char \<Rightarrow> int" where
  "digit_value c = int (of_char c) - 48"

definition py_int :: "string \<Rightarrow> int" where
  "py_int ds = foldl (\<lambda>acc c. 10 * acc + digit_value c) 0 ds"

text \<open>Lines 134 to 137: the \<open>Now\<close> pattern, and the \<open>Index\<close> pattern only if the
  first did not match.\<close>

definition find_value :: "string \<Rightarrow> string option" where
  "find_value txt =
     (case re_search ''Now'' txt of
        Some grp \<Rightarrow> Some grp
      | None \<Rightarrow> re_search ''Index'' txt)"

text \<open>Lines 143 to 152.\<close>

definition fear_greed_label :: "int \<Rightarrow> string" where
  "fear_greed_label v =
     (if v \<le> 25 then ''Extreme Fear''
      else if v \<le> 45 then ''Fear''
      else if v \<le> 55 then ''Neutral''
      else if v \<le> 75 then ''Greed''
      else ''Extreme Greed'')"

definition fear_greed_url :: string where
  "fear_greed_url = ''https://alternative.me/crypto/fear-and-greed-index/''"

definition none_pair :: pyval where
  "none_pair = PTuple [PNone, PNone]"

text \<open>The body of the \<^verbatim>\<open>try\<close> (lines 130 to 158).\<close>

definition fetch_fear_greed_try :: "world \<Rightarrow> string \<Rightarrow> state \<Rightarrow> (exn + pyval) \<times> state" where
  "fetch_fear_greed_try w html s =
     (case soup_get_text w html of
        Inl e \<Rightarrow> (Inl e, s)
      | Inr txt \<Rightarrow>
          (case find_value txt of
             None \<Rightarrow> (Inr none_pair, s)
           | Some grp \<Rightarrow>
               (let v = py_int grp in
                if 0 \<le> v \<and> v \<le> 100
                then (let result = PTuple [PInt v, PStr (fear_greed_label v)]
                      in (Inr result, set_cached (now_set_fear w) ''fear_greed'' result s))
                else (Inr none_pair, s))))"

definition fetch_fear_greed :: "world \<Rightarrow> state \<Rightarrow> pyval \<times> state" where
  "fetch_fear_greed w s =
     (case get_cached (now_get_fear w) ''fear_greed'' s of
        (cached, s0) \<Rightarrow>
          if truthy cached then (cached, s0)
          else (case fetch_html (page_reply w) fear_greed_url s0 of
                  (None, s1) \<Rightarrow> (none_pair, s1)
                | (Some html, s1) \<Rightarrow>
                    if html = [] then (none_pair, s1)
                    else (case fetch_fear_greed_try w html s1 of
                            (Inl e, s2) \<Rightarrow> (none_pair, s2)
                          | (Inr result, s2) \<Rightarrow> (result, s2))))"

section \<open>The snapshot composer (lines 164 to 174)\<close>

record snapshot =
  btc_price :: pyval
  fear_value :: pyval
  fear_label :: pyval
  timestamp :: string

text \<open>The unpacking \<^verbatim>\<open>fear_value, fear_label = ...\<close>: it needs an iterable of exactly
  two items.\<close>

fun unpack2 :: "pyval \<Rightarrow> exn + (pyval \<times> pyval)" where
  "unpack2 (PTuple [a, b]) = Inr (a, b)"
| "unpack2 (PTuple xs) = Inl ValueError"
| "unpack2 (PStr [a, b]) = Inr (PStr [a], PStr [b])"
| "unpack2 (PStr cs) = Inl ValueError"
| "unpack2 PNone = Inl TypeError"
| "unpack2 (PInt i) = Inl TypeError"
| "unpack2 (PFloat f) = Inl TypeError"

definition get_market_snapshot :: "world \<Rightarrow> state \<Rightarrow> (exn + snapshot) \<times> state" where
  "get_market_snapshot w s =
     (case fetch_btc_price w s of
        (price, s1) \<Rightarrow>
          (case fetch_fear_greed w s1 of
             (fg, s2) \<Rightarrow>
               (case unpack2 fg of
                  Inl e \<Rightarrow> (Inl e, s2)
                | Inr (fv, fl) \<Rightarrow>
                    (Inr \<lparr>btc_price = price, fear_value = fv, fear_label = fl,
                          timestamp = wall_clock w\<rparr>, s2))))"

section \<open>Reachable states and the cache invariant\<close>

text \<open>The states the core can be in: the empty cache of module start-up, and whatever
  a call of one of its functions leaves, in any world.  \<^verbatim>\<open>set_cached\<close> is called at
  lines 107 and 155 only, inside the two fetchers.\<close>

inductive reachable :: "state \<Rightarrow> bool" where
  start: "reachable initial_state"
| after_get_cached: "reachable s \<Longrightarrow> reachable (snd (get_cached now key s))"
| after_fetch_html: "reachable s \<Longrightarrow> reachable (snd (fetch_html reply u s))"
| after_fetch_btc_price: "reachable s \<Longrightarrow> reachable (snd (fetch_btc_price w s))"
| after_fetch_fear_greed: "reachable s \<Longrightarrow> reachable (snd (fetch_fear_greed w s))"
| after_get_market_snapshot: "reachable s \<Longrightarrow> reachable (snd (get_market_snapshot w s))"

fun is_price :: "pyval \<Rightarrow> bool" where
  "is_price (PFloat f) = float_gt_zero f"
| "is_price PNone = False"
| "is_price (PInt i) = False"
| "is_price (PStr s) = False"
| "is_price (PTuple xs) = False"

fun is_reading :: "pyval \<Rightarrow> bool" where
  "is_reading (PTuple [PInt v, PStr l]) = (0 \<le> v \<and> v \<le> 100 \<and> l = fear_greed_label v)"
| "is_reading other = False"

definition cache_inv :: "state \<Rightarrow> bool" where
  "cache_inv s =
     ((case cache s ''btc_price'' of None \<Rightarrow> True | Some (v, ts) \<Rightarrow> is_price v) \<and>
      (case cache s ''fear_greed'' of None \<Rightarrow> True | Some (v, ts) \<Rightarrow> is_reading v))"

text \<open>The strict cache-hit test: an entry exists under the key and is younger than the
  TTL.\<close>

definition present_and_fresh :: "time \<Rightarrow> string \<Rightarrow> state \<Rightarrow> bool" where
  "present_and_fresh now key s =
     (case cache s key of None \<Rightarrow> False | Some (v, ts) \<Rightarrow> now - ts < CACHE_TTL)"

section \<open>Example worlds\<close>

text \<open>Concrete inputs on which the theorems below are exercised.  In these worlds
  every clock reading of a call is the same instant \<open>t\<close>, a page carries no markup (its
  text is the page itself), and no string parses as a float.\<close>

definition world_at :: "time \<Rightarrow> exn + response \<Rightarrow> exn + response \<Rightarrow> world" where
  "world_at t ticker page =
     \<lparr>now_get_price = t, ticker_reply = ticker, now_set_price = t,
      now_get_fear = t, page_reply = page, now_set_fear = t,
      wall_clock = ''2024-01-01 00:00:00'',
      float_of_str = (\<lambda>s. None), soup_get_text = Inr\<rparr>"

definition usd_json :: "pyfloat \<Rightarrow> json" where
  "usd_json f = JObj [(''USD'', JObj [(''last'', JFloat f)])]"

definition ticker_ok :: "json \<Rightarrow> exn + response" where
  "ticker_ok j = Inr \<lparr>status_code = 200, body_text = [], json_body = Inr j\<rparr>"

definition page_ok :: "string \<Rightarrow> exn + response" where
  "page_ok txt = Inr \<lparr>status_code = 200, body_text = txt, json_body = Inl JSONDecodeError\<rparr>"

text \<open>Both sources answer: the ticker with 67890.12, the page with \<open>Now 38 (Fear)\<close>.\<close>

definition world_up :: "time \<Rightarrow> world" where
  "world_up t = world_at t (ticker_ok (usd_json (Finite 67890.12))) (page_ok ''Now 38 (Fear)'')"

text \<open>Both sources are unreachable.\<close>

definition world_down :: "time \<Rightarrow> world" where
  "world_down t = world_at t (Inl ConnectionError) (Inl Timeout)"

section \<open>Unfolding and case analysis of the fetchers\<close>

lemmas world_simps = world_at_def usd_json_def ticker_ok_def page_ok_def world_up_def world_down_def
lemmas cache_simps = get_cached_def set_cached_def CACHE_TTL_def initial_state_def
lemmas price_simps = fetch_btc_price_def fetch_btc_price_try_def http_get_def log_request_def
  raise_for_status_def ebind_def usd_last_def ticker_request_def REQUEST_TIMEOUT_def
lemmas regex_simps = find_value_def match_at_def lower_def is_digit_def py_int_def digit_value_def
lemmas fear_simps = fetch_fear_greed_def fetch_fear_greed_try_def fetch_html_def html_request_def
  fear_greed_url_def fear_greed_label_def none_pair_def Let_def
lemmas all_simps = get_market_snapshot_def world_simps cache_simps price_simps regex_simps fear_simps

lemma get_cached_state: "snd (get_cached now key s) = s"
  by (simp add: get_cached_def split: option.splits prod.splits)

lemma get_cached_pair:
  "get_cached now key s = (v, s') \<Longrightarrow> v = fst (get_cached now key s) \<and> s' = s"
  using get_cached_state [of now key s] by simp

lemma fetch_btc_price_hit:
  "truthy (fst (get_cached (now_get_price w) ''btc_price'' s)) \<Longrightarrow>
   fetch_btc_price w s = (fst (get_cached (now_get_price w) ''btc_price'' s), s)"
  by (auto simp add: fetch_btc_price_def split: prod.splits dest: get_cached_pair)

lemma fetch_btc_price_miss:
  "\<not> truthy (fst (get_cached (now_get_price w) ''btc_price'' s)) \<Longrightarrow>
   fetch_btc_price w s =
     (case fetch_btc_price_try w s of
        (Inl e, s1) \<Rightarrow> (PNone, s1)
      | (Inr None, s1) \<Rightarrow> (PNone, s1)
      | (Inr (Some price), s1) \<Rightarrow> (price, s1))"
  by (auto simp add: fetch_btc_price_def split: prod.splits dest: get_cached_pair)

lemma fetch_fear_greed_hit:
  "truthy (fst (get_cached (now_get_fear w) ''fear_greed'' s)) \<Longrightarrow>
   fetch_fear_greed w s = (fst (get_cached (now_get_fear w) ''fear_greed'' s), s)"
  by (auto simp add: fetch_fear_greed_def split: prod.splits dest: get_cached_pair)

lemma fetch_fear_greed_miss:
  "\<not> truthy (fst (get_cached (now_get_fear w) ''fear_greed'' s)) \<Longrightarrow>
   fetch_fear_greed w s =
     (case fetch_html (page_reply w) fear_greed_url s of
        (None, s1) \<Rightarrow> (none_pair, s1)
      | (Some html, s1) \<Rightarrow>
          if html = [] then (none_pair, s1)
          else (case fetch_fear_greed_try w html s1 of
                  (Inl e, s2) \<Rightarrow> (none_pair, s2)
                | (Inr result, s2) \<Rightarrow> (result, s2)))"
  by (auto simp add: fetch_fear_greed_def split: prod.splits dest: get_cached_pair)

lemma fetch_html_ok:
  "reply = Inr resp \<Longrightarrow> raise_for_status resp = Inr () \<Longrightarrow>
   fetch_html reply u s = (Some (body_text resp), log_request (html_request u) s)"
  by (simp add: fetch_html_def http_get_def)

lemma fetch_fear_greed_page:
  assumes miss: "\<not> truthy (fst (get_cached (now_get_fear w) ''fear_greed'' s))"
      and reply: "page_reply w = Inr resp"
      and status: "raise_for_status resp = Inr ()"
      and body: "body_text resp \<noteq> []"
      and soup: "soup_get_text w (body_text resp) = Inr plain"
  shows "fetch_fear_greed w s =
     (case find_value plain of
        None \<Rightarrow> (none_pair, log_request (html_request fear_greed_url) s)
      | Some grp \<Rightarrow>
          if 0 \<le> py_int grp \<and> py_int grp \<le> 100
          then (PTuple [PInt (py_int grp), PStr (fear_greed_label (py_int grp))],
                set_cached (now_set_fear w) ''fear_greed''
                  (PTuple [PInt (py_int grp), PStr (fear_greed_label (py_int grp))])
                  (log_request (html_request fear_greed_url) s))
          else (none_pair, log_request (html_request fear_greed_url) s))"
  using body soup
  by (simp add: fetch_fear_greed_miss [OF miss] fetch_html_ok [OF reply status]
      fetch_fear_greed_try_def Let_def split: option.splits)

lemma fetch_btc_price_cases:
  "(truthy (fst (get_cached (now_get_price w) ''btc_price'' s)) \<and>
      fetch_btc_price w s = (fst (get_cached (now_get_price w) ''btc_price'' s), s))
   \<or> (\<not> truthy (fst (get_cached (now_get_price w) ''btc_price'' s)) \<and>
        (fetch_btc_price w s = (PNone, log_request ticker_request s)
         \<or> (\<exists>p. float_gt_zero p \<and>
               fetch_btc_price w s =
                 (PFloat p,
                  set_cached (now_set_price w) ''btc_price'' (PFloat p)
                    (log_request ticker_request s)))))"
proof (cases "truthy (fst (get_cached (now_get_price w) ''btc_price'' s))")
  case True
  then show ?thesis by (simp add: fetch_btc_price_hit)
next
  case False
  then show ?thesis
    by (auto simp add: fetch_btc_price_miss fetch_btc_price_try_def http_get_def ebind_def
        split: sum.splits option.splits)
qed

lemma fetch_html_cases:
  "fetch_html reply u s = (None, log_request (html_request u) s)
   \<or> (\<exists>html. fetch_html reply u s = (Some html, log_request (html_request u) s))"
  by (simp add: fetch_html_def http_get_def split: sum.splits)

lemma fetch_fear_greed_cases:
  "(truthy (fst (get_cached (now_get_fear w) ''fear_greed'' s)) \<and>
      fetch_fear_greed w s = (fst (get_cached (now_get_fear w) ''fear_greed'' s), s))
   \<or> (\<not> truthy (fst (get_cached (now_get_fear w) ''fear_greed'' s)) \<and>
        (fetch_fear_greed w s = (PTuple [PNone, PNone], log_request (html_request fear_greed_url) s)
         \<or> (\<exists>v. 0 \<le> v \<and> v \<le> 100 \<and>
               fetch_fear_greed w s =
                 (PTuple [PInt v, PStr (fear_greed_label v)],
                  set_cached (now_set_fear w) ''fear_greed''
                    (PTuple [PInt v, PStr (fear_greed_label v)])
                    (log_request (html_request fear_greed_url) s)))))"
proof (cases "truthy (fst (get_cached (now_get_fear w) ''fear_greed'' s))")
  case True
  then show ?thesis by (simp add: fetch_fear_greed_hit)
next
  case False
  then show ?thesis
    by (auto simp add: fetch_fear_greed_miss fetch_html_def http_get_def fetch_fear_greed_try_def
        none_pair_def Let_def split: sum.splits option.splits)
qed

subsection \<open>The invariant is preserved\<close>

lemma cache_inv_log_request: "cache_inv (log_request rq s) = cache_inv s"
  by (simp add: cache_inv_def log_request_def)

lemma cache_inv_initial: "cache_inv initial_state"
  by (simp add: cache_inv_def initial_state_def)

lemma cache_inv_fetch_btc_price: "cache_inv s \<Longrightarrow> cache_inv (snd (fetch_btc_price w s))"
  using fetch_btc_price_cases [of w s]
  by (auto simp add: cache_inv_def log_request_def set_cached_def)

lemma cache_inv_fetch_fear_greed: "cache_inv s \<Longrightarrow> cache_inv (snd (fetch_fear_greed w s))"
  using fetch_fear_greed_cases [of w s]
  by (auto simp add: cache_inv_def log_request_def set_cached_def)

lemma cache_inv_fetch_html: "cache_inv s \<Longrightarrow> cache_inv (snd (fetch_html reply u s))"
  using fetch_html_cases [of reply u s]
  by (auto simp add: cache_inv_log_request)

lemma snd_get_market_snapshot:
  "snd (get_market_snapshot w s) = snd (fetch_fear_greed w (snd (fetch_btc_price w s)))"
  by (simp add: get_market_snapshot_def split: prod.splits sum.splits)

lemma cache_inv_get_market_snapshot:
  "cache_inv s \<Longrightarrow> cache_inv (snd (get_market_snapshot w s))"
  by (simp add: snd_get_market_snapshot cache_inv_fetch_btc_price cache_inv_fetch_fear_greed)

lemma reachable_cache_inv: "reachable s \<Longrightarrow> cache_inv s"
proof (induction rule: reachable.induct)
  case start
  show ?case by (rule cache_inv_initial)
next
  case (after_get_cached s now key)
  then show ?case by (simp add: get_cached_state)
next
  case (after_fetch_html s reply u)
  then show ?case by (simp add: cache_inv_fetch_html)
next
  case (after_fetch_btc_price s w)
  then show ?case by (simp add: cache_inv_fetch_btc_price)
next
  case (after_fetch_fear_greed s w)
  then show ?case by (simp add: cache_inv_fetch_fear_greed)
next
  case (after_get_market_snapshot s w)
  then show ?case by (simp add: cache_inv_get_market_snapshot)
qed

lemma is_price_float: "is_price v \<Longrightarrow> \<exists>p. v = PFloat p \<and> float_gt_zero p"
  by (cases v) auto

lemma is_reading_pair:
  "is_reading v \<Longrightarrow> \<exists>n. 0 \<le> n \<and> n \<le> 100 \<and> v = PTuple [PInt n, PStr (fear_greed_label n)]"
  by (erule is_reading.elims) auto

lemma is_price_truthy: "is_price v \<Longrightarrow> truthy v"
  by (auto dest!: is_price_float elim: float_gt_zero.elims)

lemma is_reading_truthy: "is_reading v \<Longrightarrow> truthy v"
  by (auto dest!: is_reading_pair)

lemma truthy_get_cached_price:
  "cache_inv s \<Longrightarrow>
   truthy (fst (get_cached now ''btc_price'' s)) = present_and_fresh now ''btc_price'' s"
  by (auto simp add: cache_inv_def get_cached_def present_and_fresh_def is_price_truthy
      split: option.splits)

lemma truthy_get_cached_fear:
  "cache_inv s \<Longrightarrow>
   truthy (fst (get_cached now ''fear_greed'' s)) = present_and_fresh now ''fear_greed'' s"
  by (auto simp add: cache_inv_def get_cached_def present_and_fresh_def is_reading_truthy
      split: option.splits)

lemma get_cached_price_result:
  "cache_inv s \<Longrightarrow>
   fst (get_cached now ''btc_price'' s) = PNone \<or> is_price (fst (get_cached now ''btc_price'' s))"
  by (auto simp add: cache_inv_def get_cached_def split: option.splits)

lemma get_cached_fear_result:
  "cache_inv s \<Longrightarrow>
   fst (get_cached now ''fear_greed'' s) = PNone \<or> is_reading (fst (get_cached now ''fear_greed'' s))"
  by (auto simp add: cache_inv_def get_cached_def split: option.splits)

lemma fetch_btc_price_result:
  "cache_inv s \<Longrightarrow> fst (fetch_btc_price w s) = PNone \<or> is_price (fst (fetch_btc_price w s))"
  using fetch_btc_price_cases [of w s] get_cached_price_result [of s "now_get_price w"]
  by auto

lemma fetch_fear_greed_result:
  "cache_inv s \<Longrightarrow>
   fst (fetch_fear_greed w s) = PTuple [PNone, PNone] \<or> is_reading (fst (fetch_fear_greed w s))"
  using fetch_fear_greed_cases [of w s] get_cached_fear_result [of s "now_get_fear w"]
  by auto

lemma fetch_btc_price_other_key:
  "key \<noteq> ''btc_price'' \<Longrightarrow> cache (snd (fetch_btc_price w s)) key = cache s key"
  using fetch_btc_price_cases [of w s]
  by (auto simp add: log_request_def set_cached_def)

lemma fetch_fear_greed_other_key:
  "key \<noteq> ''fear_greed'' \<Longrightarrow> cache (snd (fetch_fear_greed w s)) key = cache s key"
  using fetch_fear_greed_cases [of w s]
  by (auto simp add: log_request_def set_cached_def)

lemma fetch_btc_price_requests_miss:
  "\<not> truthy (fst (get_cached (now_get_price w) ''btc_price'' s)) \<Longrightarrow>
   requests (snd (fetch_btc_price w s)) = requests s @ [ticker_request]"
  using fetch_btc_price_cases [of w s]
  by (auto simp add: log_request_def set_cached_def)

lemma fetch_fear_greed_requests_miss:
  "\<not> truthy (fst (get_cached (now_get_fear w) ''fear_greed'' s)) \<Longrightarrow>
   requests (snd (fetch_fear_greed w s)) = requests s @ [html_request fear_greed_url]"
  using fetch_fear_greed_cases [of w s]
  by (auto simp add: log_request_def set_cached_def)

lemma present_and_fresh_cong:
  "cache s' key = cache s key \<Longrightarrow> present_and_fresh now key s' = present_and_fresh now key s"
  by (simp add: present_and_fresh_def)

lemma get_market_snapshot_unfold:
  "get_market_snapshot w s =
     (case unpack2 (fst (fetch_fear_greed w (snd (fetch_btc_price w s)))) of
        Inl e \<Rightarrow> (Inl e, snd (fetch_fear_greed w (snd (fetch_btc_price w s))))
      | Inr (fv, fl) \<Rightarrow>
          (Inr \<lparr>btc_price = fst (fetch_btc_price w s), fear_value = fv, fear_label = fl,
                timestamp = wall_clock w\<rparr>,
           snd (fetch_fear_greed w (snd (fetch_btc_price w s)))))"
  by (simp add: get_market_snapshot_def case_prod_beta)


subsection \<open>What a call leaves in the cache and in the request log\<close>

lemma fetch_btc_price_cached:
  "fst (fetch_btc_price w s) \<noteq> PNone \<Longrightarrow>
   truthy (fst (fetch_btc_price w s)) \<and>
   (\<exists>ts. cache (snd (fetch_btc_price w s)) ''btc_price'' = Some (fst (fetch_btc_price w s), ts))"
  using fetch_btc_price_cases [of w s]
  by (auto simp add: get_cached_def set_cached_def log_request_def
      split: option.splits if_splits elim: float_gt_zero.elims)

lemma fetch_fear_greed_cached:
  "fst (fetch_fear_greed w s) \<noteq> PTuple [PNone, PNone] \<Longrightarrow>
   truthy (fst (fetch_fear_greed w s)) \<and>
   (\<exists>ts. cache (snd (fetch_fear_greed w s)) ''fear_greed'' = Some (fst (fetch_fear_greed w s), ts))"
  using fetch_fear_greed_cases [of w s]
  by (auto simp add: get_cached_def set_cached_def log_request_def
      split: option.splits if_splits)

lemma fetch_btc_price_served:
  "cache s ''btc_price'' = Some (v, ts) \<Longrightarrow> truthy v \<Longrightarrow>
   present_and_fresh (now_get_price w) ''btc_price'' s \<Longrightarrow> fetch_btc_price w s = (v, s)"
  by (simp add: fetch_btc_price_def get_cached_def present_and_fresh_def)

lemma fetch_fear_greed_served:
  "cache s ''fear_greed'' = Some (v, ts) \<Longrightarrow> truthy v \<Longrightarrow>
   present_and_fresh (now_get_fear w) ''fear_greed'' s \<Longrightarrow> fetch_fear_greed w s = (v, s)"
  by (simp add: fetch_fear_greed_def get_cached_def present_and_fresh_def)

lemma fetch_html_requests:
  "requests (snd (fetch_html reply u s)) = requests s @ [html_request u]"
  using fetch_html_cases [of reply u s] by (auto simp add: log_request_def)

lemma fetch_btc_price_requests:
  "requests (snd (fetch_btc_price w s)) = requests s
   \<or> requests (snd (fetch_btc_price w s)) = requests s @ [ticker_request]"
  using fetch_btc_price_cases [of w s] by (auto simp add: log_request_def set_cached_def)

lemma fetch_fear_greed_requests:
  "requests (snd (fetch_fear_greed w s)) = requests s
   \<or> requests (snd (fetch_fear_greed w s)) = requests s @ [html_request fear_greed_url]"
  using fetch_fear_greed_cases [of w s] by (auto simp add: log_request_def set_cached_def)

lemma reachable_requests:
  "reachable s \<Longrightarrow> set (requests s) \<subseteq> insert ticker_request (range html_request)"
proof (induction rule: reachable.induct)
  case start
  then show ?case by (simp add: initial_state_def)
next
  case (after_get_cached s now key)
  then show ?case by (simp add: get_cached_state)
next
  case (after_fetch_html s reply u)
  then show ?case by (auto simp add: fetch_html_requests)
next
  case (after_fetch_btc_price s w)
  then show ?case using fetch_btc_price_requests [of w s] by auto
next
  case (after_fetch_fear_greed s w)
  then show ?case using fetch_fear_greed_requests [of w s] by auto
next
  case (after_get_market_snapshot s w)
  then show ?case
    using fetch_btc_price_requests [of w s]
      fetch_fear_greed_requests [of w "snd (fetch_btc_price w s)"]
    by (auto simp add: snd_get_market_snapshot)
qed

subsection \<open>Two evaluated calls\<close>

lemma snapshot_up:
  "get_market_snapshot (world_up 1000) initial_state =
     (Inr \<lparr>btc_price = PFloat (Finite 67890.12), fear_value = PInt 38,
           fear_label = PStr ''Fear'', timestamp = ''2024-01-01 00:00:00''\<rparr>,
      \<lparr>cache = [''btc_price'' \<mapsto> (PFloat (Finite 67890.12), 1000),
                ''fear_greed'' \<mapsto> (PTuple [PInt 38, PStr ''Fear''], 1000)],
       requests = [ticker_request, html_request fear_greed_url]\<rparr>)"
  by (simp add: all_simps)

lemma snapshot_down:
  "get_market_snapshot (world_down 1000) initial_state =
     (Inr \<lparr>btc_price = PNone, fear_value = PNone, fear_label = PNone,
           timestamp = ''2024-01-01 00:00:00''\<rparr>,
      \<lparr>cache = Map.empty, requests = [ticker_request, html_request fear_greed_url]\<rparr>)"
  by (simp add: all_simps)

subsection \<open>The matcher and the regular expression\<close>

















section \<open>Cache freshness\<close>

text \<open>
  Claim C2.  Writing \<open>v\<close> under \<open>k\<close> at time \<open>t0\<close> and reading \<open>k\<close> at time \<open>t1\<close>:
  the read returns \<open>v\<close> when \<open>t1 - t0 < CACHE_TTL\<close> (60), and \<open>None\<close> when the age is
  at least the TTL; in both cases the entry \<open>(v, t0)\<close> is still in the dictionary after
  the read, and a read returns the state it was given, whatever the state, the key and
  the time.
\<close>

theorem cache_freshness:
  "fst (get_cached t1 k (set_cached t0 k v s)) = (if t1 - t0 < 60 then v else PNone)
   \<and> cache (snd (get_cached t1 k (set_cached t0 k v s))) k = Some (v, t0)
   \<and> snd (get_cached t k' s') = s'"
  by (simp add: get_cached_def set_cached_def CACHE_TTL_def split: option.splits prod.splits)

theorem cache_freshness_witness:
  "fst (get_cached 1059.5 ''btc_price'' (set_cached 1000 ''btc_price'' (PFloat (Finite 67890.12)) initial_state))
     = PFloat (Finite 67890.12)
   \<and> fst (get_cached 1060 ''btc_price'' (set_cached 1000 ''btc_price'' (PFloat (Finite 67890.12)) initial_state))
     = PNone
   \<and> cache (snd (get_cached 1060 ''btc_price'' (set_cached 1000 ''btc_price'' (PFloat (Finite 67890.12)) initial_state))) ''btc_price''
     = Some (PFloat (Finite 67890.12), 1000)"
  using cache_freshness [of "1059.5" "''btc_price''" 1000 "PFloat (Finite 67890.12)" initial_state]
    cache_freshness [of 1060 "''btc_price''" 1000 "PFloat (Finite 67890.12)" initial_state]
  by simp

section \<open>Price validation\<close>

text \<open>
  Claim C3.  When the cache does not serve the price, so that a response is fetched: if
  the number parsed from \<open>USD.last\<close> is less than or equal to zero, the fetcher returns
  \<open>None\<close> and the cache after the call is the cache before it (only the request is
  logged); if it is strictly positive, the fetcher returns it, and after the call the
  cache holds it under \<open>btc_price\<close>, stamped with the time of the write, and is
  otherwise as before.  And whatever the reply, the fetcher either returns \<open>None\<close>
  with the cache unchanged, or returns a strictly positive float that is then the entry
  under \<open>btc_price\<close>: a non-positive value is never returned and never cached.
\<close>

theorem price_validation:
  assumes miss: "\<not> truthy (fst (get_cached (now_get_price w) ''btc_price'' s))"
  shows "(\<forall>resp data price.
            ticker_reply w = Inr resp \<and> raise_for_status resp = Inr () \<and>
            json_body resp = Inr data \<and> usd_last (float_of_str w) data = Inr (Some price) \<longrightarrow>
            (float_le_zero price \<longrightarrow>
               fetch_btc_price w s = (PNone, log_request ticker_request s) \<and>
               cache (snd (fetch_btc_price w s)) = cache s) \<and>
            (float_gt_zero price \<longrightarrow>
               fetch_btc_price w s =
                 (PFloat price,
                  set_cached (now_set_price w) ''btc_price'' (PFloat price)
                    (log_request ticker_request s)) \<and>
               cache (snd (fetch_btc_price w s)) ''btc_price''
                 = Some (PFloat price, now_set_price w) \<and>
               cache (snd (fetch_btc_price w s))
                 = (cache s)(''btc_price'' \<mapsto> (PFloat price, now_set_price w))))
       \<and> (fetch_btc_price w s = (PNone, log_request ticker_request s) \<and>
            cache (snd (fetch_btc_price w s)) = cache s
          \<or> (\<exists>p. float_gt_zero p \<and>
                fetch_btc_price w s =
                  (PFloat p,
                   set_cached (now_set_price w) ''btc_price'' (PFloat p)
                     (log_request ticker_request s)) \<and>
                cache (snd (fetch_btc_price w s))
                  = (cache s)(''btc_price'' \<mapsto> (PFloat p, now_set_price w))))
       \<and> cache (log_request ticker_request s) = cache s"
proof -
  have le_not_gt: "float_le_zero p \<Longrightarrow> \<not> float_gt_zero p" for p
    by (cases p) auto
  have stored: "cache (set_cached t ''btc_price'' v (log_request ticker_request s))
      = (cache s)(''btc_price'' \<mapsto> (v, t))" for t v
    by (simp add: set_cached_def log_request_def)
  have d: "cache (log_request ticker_request s) = cache s"
    by (simp add: log_request_def)
  have a: "fetch_btc_price w s = (PNone, log_request ticker_request s) \<and>
           cache (snd (fetch_btc_price w s)) = cache s"
    if "ticker_reply w = Inr resp" "raise_for_status resp = Inr ()"
       "json_body resp = Inr data" "usd_last (float_of_str w) data = Inr (Some price)"
       "float_le_zero price" for resp data price
    using that le_not_gt [of price]
    by (simp add: fetch_btc_price_miss [OF miss] fetch_btc_price_try_def http_get_def ebind_def d)
  have b: "fetch_btc_price w s =
            (PFloat price, set_cached (now_set_price w) ''btc_price'' (PFloat price)
               (log_request ticker_request s)) \<and>
           cache (snd (fetch_btc_price w s)) ''btc_price''
                 = Some (PFloat price, now_set_price w) \<and>
           cache (snd (fetch_btc_price w s))
                 = (cache s)(''btc_price'' \<mapsto> (PFloat price, now_set_price w))"
    if "ticker_reply w = Inr resp" "raise_for_status resp = Inr ()"
       "json_body resp = Inr data" "usd_last (float_of_str w) data = Inr (Some price)"
       "float_gt_zero price" for resp data price
    using that
    by (simp add: fetch_btc_price_miss [OF miss] fetch_btc_price_try_def http_get_def ebind_def
        stored)
  have c: "fetch_btc_price w s = (PNone, log_request ticker_request s) \<and>
            cache (snd (fetch_btc_price w s)) = cache s
          \<or> (\<exists>p. float_gt_zero p \<and>
                fetch_btc_price w s =
                  (PFloat p,
                   set_cached (now_set_price w) ''btc_price'' (PFloat p)
                     (log_request ticker_request s)) \<and>
                cache (snd (fetch_btc_price w s))
                  = (cache s)(''btc_price'' \<mapsto> (PFloat p, now_set_price w)))"
    using fetch_btc_price_cases [of w s] miss by (auto simp add: stored d)
  from a b c d show ?thesis by blast
qed

theorem price_validation_witness:
  "fetch_btc_price (world_at 1000 (ticker_ok (usd_json (Finite (- 5)))) (Inl Timeout)) initial_state
     = (PNone, log_request ticker_request initial_state)
   \<and> cache (snd (fetch_btc_price (world_at 1000 (ticker_ok (usd_json (Finite (- 5)))) (Inl Timeout)) initial_state))
        ''btc_price'' = None
   \<and> fetch_btc_price (world_at 1000 (ticker_ok (usd_json (Finite 0))) (Inl Timeout)) initial_state
     = (PNone, log_request ticker_request initial_state)
   \<and> cache (snd (fetch_btc_price (world_at 1000 (ticker_ok (usd_json (Finite 0))) (Inl Timeout)) initial_state))
        ''btc_price'' = None
   \<and> fetch_btc_price (world_up 1000) initial_state
     = (PFloat (Finite 67890.12),
        set_cached 1000 ''btc_price'' (PFloat (Finite 67890.12))
          (log_request ticker_request initial_state))
   \<and> cache (snd (fetch_btc_price (world_up 1000) initial_state)) ''btc_price''
     = Some (PFloat (Finite 67890.12), 1000)
   \<and> cache (snd (fetch_btc_price (world_up 1000) initial_state)) ''fear_greed'' = None"
proof -
  let ?neg = "world_at 1000 (ticker_ok (usd_json (Finite (- 5)))) (Inl Timeout)"
  let ?zero = "world_at 1000 (ticker_ok (usd_json (Finite 0))) (Inl Timeout)"
  have miss: "\<not> truthy (fst (get_cached (now_get_price w) ''btc_price'' initial_state))" for w
    by (simp add: cache_simps)
  have neg: "usd_last (\<lambda>s. None) (usd_json (Finite (- 5))) = Inr (Some (Finite (- 5)))"
    and zero: "usd_last (\<lambda>s. None) (usd_json (Finite 0)) = Inr (Some (Finite 0))"
    and pos: "usd_last (\<lambda>s. None) (usd_json (Finite 67890.12)) = Inr (Some (Finite 67890.12))"
    by (simp_all add: usd_last_def usd_json_def ebind_def)
  have ok: "raise_for_status \<lparr>status_code = 200, body_text = [], json_body = Inr j\<rparr> = Inr ()" for j
    by (simp add: raise_for_status_def)
  have empty: "cache initial_state = Map.empty"
    by (simp add: initial_state_def)
  from neg ok price_validation [OF miss, of ?neg]
  have 1: "fetch_btc_price ?neg initial_state = (PNone, log_request ticker_request initial_state)
     \<and> cache (snd (fetch_btc_price ?neg initial_state)) = cache initial_state"
    by (simp add: world_at_def ticker_ok_def)
  from zero ok price_validation [OF miss, of ?zero]
  have 2: "fetch_btc_price ?zero initial_state = (PNone, log_request ticker_request initial_state)
     \<and> cache (snd (fetch_btc_price ?zero initial_state)) = cache initial_state"
    by (simp add: world_at_def ticker_ok_def)
  from pos ok price_validation [OF miss, of "world_up 1000"]
  have 3: "fetch_btc_price (world_up 1000) initial_state
     = (PFloat (Finite 67890.12),
        set_cached 1000 ''btc_price'' (PFloat (Finite 67890.12))
          (log_request ticker_request initial_state))
     \<and> cache (snd (fetch_btc_price (world_up 1000) initial_state))
       = (cache initial_state)(''btc_price'' \<mapsto> (PFloat (Finite 67890.12), 1000))"
    by (simp add: world_up_def world_at_def ticker_ok_def set_cached_def log_request_def)
  from 1 2 3 empty show ?thesis
    by (simp add: log_request_def set_cached_def initial_state_def)
qed

section \<open>Sentiment labels\<close>

text \<open>
  Claim C4.  For an integer \<open>v\<close> in [0,100] the label is one of the five fixed labels,
  by inclusive upper thresholds: up to 25 Extreme Fear, 26 to 45 Fear, 46 to 55 Neutral,
  56 to 75 Greed, from 76 Extreme Greed; and it is the label the sentiment fetcher
  returns next to \<open>v\<close> when it reads \<open>v\<close> from the page.
\<close>

theorem sentiment_labels:
  assumes range: "0 \<le> v" "v \<le> 100"
  shows "fear_greed_label v \<in> {''Extreme Fear'', ''Fear'', ''Neutral'', ''Greed'', ''Extreme Greed''}
     \<and> (v \<le> 25 \<longrightarrow> fear_greed_label v = ''Extreme Fear'')
     \<and> (26 \<le> v \<and> v \<le> 45 \<longrightarrow> fear_greed_label v = ''Fear'')
     \<and> (46 \<le> v \<and> v \<le> 55 \<longrightarrow> fear_greed_label v = ''Neutral'')
     \<and> (56 \<le> v \<and> v \<le> 75 \<longrightarrow> fear_greed_label v = ''Greed'')
     \<and> (76 \<le> v \<longrightarrow> fear_greed_label v = ''Extreme Greed'')
     \<and> (\<forall>w s resp plain grp.
           \<not> truthy (fst (get_cached (now_get_fear w) ''fear_greed'' s)) \<and>
           page_reply w = Inr resp \<and> raise_for_status resp = Inr () \<and>
           body_text resp \<noteq> [] \<and> soup_get_text w (body_text resp) = Inr plain \<and>
           find_value plain = Some grp \<and> py_int grp = v \<longrightarrow>
           fst (fetch_fear_greed w s) = PTuple [PInt v, PStr (fear_greed_label v)])"
proof -
  have fetcher: "fst (fetch_fear_greed w s) = PTuple [PInt v, PStr (fear_greed_label v)]"
    if "\<not> truthy (fst (get_cached (now_get_fear w) ''fear_greed'' s))"
       "page_reply w = Inr resp" "raise_for_status resp = Inr ()"
       "body_text resp \<noteq> []" "soup_get_text w (body_text resp) = Inr plain"
       "find_value plain = Some grp" "py_int grp = v" for w s resp plain grp
    using that(6,7) range
    by (simp add: fetch_fear_greed_page [OF that(1-5)])
  have labels: "fear_greed_label v \<in> {''Extreme Fear'', ''Fear'', ''Neutral'', ''Greed'', ''Extreme Greed''}"
    "v \<le> 25 \<longrightarrow> fear_greed_label v = ''Extreme Fear''"
    "26 \<le> v \<and> v \<le> 45 \<longrightarrow> fear_greed_label v = ''Fear''"
    "46 \<le> v \<and> v \<le> 55 \<longrightarrow> fear_greed_label v = ''Neutral''"
    "56 \<le> v \<and> v \<le> 75 \<longrightarrow> fear_greed_label v = ''Greed''"
    "76 \<le> v \<longrightarrow> fear_greed_label v = ''Extreme Greed''"
    by (simp_all add: fear_greed_label_def)
  from labels fetcher show ?thesis by blast
qed

theorem sentiment_labels_witness:
  "fear_greed_label 25 = ''Extreme Fear'' \<and> fear_greed_label 26 = ''Fear''
   \<and> fear_greed_label 45 = ''Fear'' \<and> fear_greed_label 46 = ''Neutral''
   \<and> fear_greed_label 55 = ''Neutral'' \<and> fear_greed_label 56 = ''Greed''
   \<and> fear_greed_label 75 = ''Greed'' \<and> fear_greed_label 76 = ''Extreme Greed''
   \<and> fear_greed_label 0 = ''Extreme Fear'' \<and> fear_greed_label 100 = ''Extreme Greed''
   \<and> fst (fetch_fear_greed (world_up 1000) initial_state) = PTuple [PInt 38, PStr ''Fear'']"
proof -
  have miss: "\<not> truthy (fst (get_cached (now_get_fear (world_up 1000)) ''fear_greed'' initial_state))"
    by (simp add: cache_simps)
  have page: "page_reply (world_up 1000) = Inr \<lparr>status_code = 200, body_text = ''Now 38 (Fear)'', json_body = Inl JSONDecodeError\<rparr>"
    "soup_get_text (world_up 1000) ''Now 38 (Fear)'' = Inr ''Now 38 (Fear)''"
    by (simp_all add: world_simps)
  have found: "find_value ''Now 38 (Fear)'' = Some ''38''" "py_int ''38'' = 38"
    by (simp_all add: regex_simps)
  have ok: "raise_for_status \<lparr>status_code = 200, body_text = ''Now 38 (Fear)'', json_body = Inl JSONDecodeError\<rparr> = Inr ()"
    by (simp add: raise_for_status_def)
  from sentiment_labels [of 38] miss page found ok
  have "fst (fetch_fear_greed (world_up 1000) initial_state) = PTuple [PInt 38, PStr ''Fear'']"
    by simp
  with sentiment_labels [of 25] sentiment_labels [of 26] sentiment_labels [of 45]
    sentiment_labels [of 46] sentiment_labels [of 55] sentiment_labels [of 56]
    sentiment_labels [of 75] sentiment_labels [of 76] sentiment_labels [of 0]
    sentiment_labels [of 100]
  show ?thesis by simp
qed

section \<open>Pattern priority\<close>



section \<open>An out-of-range match of the first pattern\<close>

text \<open>
  Claim C10.  When the \<open>Now\<close> pattern matches an integer outside [0,100] in the page
  text, the fetcher returns the pair \<open>(None, None)\<close> and writes nothing to the cache,
  whatever the \<open>Index\<close> pattern would match in the same text: the second pattern is
  tried only when the first has no match at all.
\<close>

theorem now_out_of_range:
  assumes miss: "\<not> truthy (fst (get_cached (now_get_fear w) ''fear_greed'' s))"
      and reply: "page_reply w = Inr resp"
      and status: "raise_for_status resp = Inr ()"
      and body: "body_text resp \<noteq> []"
      and soup: "soup_get_text w (body_text resp) = Inr plain"
      and now: "re_search ''Now'' plain = Some grp"
      and out: "\<not> (0 \<le> py_int grp \<and> py_int grp \<le> 100)"
  shows "fetch_fear_greed w s = (PTuple [PNone, PNone], log_request (html_request fear_greed_url) s)
     \<and> cache (snd (fetch_fear_greed w s)) = cache s"
  using now out
  by (simp add: fetch_fear_greed_page [OF miss reply status body soup] find_value_def
      none_pair_def log_request_def)

theorem now_out_of_range_witness:
  "re_search ''Index'' ''Now 250, Index 42'' = Some ''42''
   \<and> fetch_fear_greed (world_at 1000 (Inl Timeout) (page_ok ''Now 250, Index 42'')) initial_state
     = (PTuple [PNone, PNone], log_request (html_request fear_greed_url) initial_state)
   \<and> cache (snd (fetch_fear_greed (world_at 1000 (Inl Timeout) (page_ok ''Now 250, Index 42'')) initial_state))
     = Map.empty"
proof -
  have miss: "\<not> truthy (fst (get_cached (now_get_fear w) ''fear_greed'' initial_state))" for w
    by (simp add: cache_simps)
  have page: "page_reply (world_at 1000 (Inl Timeout) (page_ok ''Now 250, Index 42''))
      = Inr \<lparr>status_code = 200, body_text = ''Now 250, Index 42'', json_body = Inl JSONDecodeError\<rparr>"
    by (simp add: world_simps)
  have ok: "raise_for_status \<lparr>status_code = 200, body_text = ''Now 250, Index 42'', json_body = Inl JSONDecodeError\<rparr> = Inr ()"
    by (simp add: raise_for_status_def)
  have body: "body_text \<lparr>status_code = 200, body_text = ''Now 250, Index 42'', json_body = Inl JSONDecodeError\<rparr> \<noteq> []"
    by simp
  have soup: "soup_get_text (world_at 1000 (Inl Timeout) (page_ok ''Now 250, Index 42''))
       (body_text \<lparr>status_code = 200, body_text = ''Now 250, Index 42'', json_body = Inl JSONDecodeError\<rparr>)
      = Inr ''Now 250, Index 42''"
    by (simp add: world_simps)
  have now: "re_search ''Now'' ''Now 250, Index 42'' = Some ''250''"
    by (simp add: regex_simps)
  have out: "\<not> (0 \<le> py_int ''250'' \<and> py_int ''250'' \<le> 100)"
    by (simp add: py_int_def digit_value_def)
  have idx: "re_search ''Index'' ''Now 250, Index 42'' = Some ''42''"
    by (simp add: regex_simps)
  from now_out_of_range [OF miss page ok body soup now out] idx
  show ?thesis by (simp add: initial_state_def log_request_def)
qed

section \<open>The cache invariant\<close>

text \<open>
  Claim C9.  In every state the core can reach from the empty cache, an entry under
  \<open>btc_price\<close> holds a strictly positive float and an entry under \<open>fear_greed\<close>
  holds a pair \<open>(v, label)\<close> with \<open>v\<close> in [0,100] and \<open>label\<close> the threshold label
  of \<open>v\<close>; hence for both keys the truthiness test on the result of \<open>get_cached\<close> is
  the same as the entry being present and younger than the TTL.
\<close>

theorem cache_invariant:
  assumes reach: "reachable s"
  shows "(\<forall>v ts. cache s ''btc_price'' = Some (v, ts) \<longrightarrow> (\<exists>p. v = PFloat p \<and> float_gt_zero p))
     \<and> (\<forall>v ts. cache s ''fear_greed'' = Some (v, ts) \<longrightarrow>
           (\<exists>n. 0 \<le> n \<and> n \<le> 100 \<and> v = PTuple [PInt n, PStr (fear_greed_label n)]))
     \<and> (\<forall>now. truthy (fst (get_cached now ''btc_price'' s))
              = present_and_fresh now ''btc_price'' s)
     \<and> (\<forall>now. truthy (fst (get_cached now ''fear_greed'' s))
              = present_and_fresh now ''fear_greed'' s)"
proof -
  from reach have inv: "cache_inv s" by (rule reachable_cache_inv)
  have price: "\<exists>p. v = PFloat p \<and> float_gt_zero p" if "cache s ''btc_price'' = Some (v, ts)" for v ts
    using inv that by (simp add: cache_inv_def is_price_float)
  have fear: "\<exists>n. 0 \<le> n \<and> n \<le> 100 \<and> v = PTuple [PInt n, PStr (fear_greed_label n)]"
    if "cache s ''fear_greed'' = Some (v, ts)" for v ts
    using inv that by (simp add: cache_inv_def is_reading_pair)
  from price fear truthy_get_cached_price [OF inv] truthy_get_cached_fear [OF inv]
  show ?thesis by blast
qed

theorem cache_invariant_witness:
  "cache (snd (get_market_snapshot (world_up 1000) initial_state)) ''btc_price''
     = Some (PFloat (Finite 67890.12), 1000)
   \<and> cache (snd (get_market_snapshot (world_up 1000) initial_state)) ''fear_greed''
     = Some (PTuple [PInt 38, PStr (fear_greed_label 38)], 1000)
   \<and> truthy (fst (get_cached 1059 ''btc_price'' (snd (get_market_snapshot (world_up 1000) initial_state))))
   \<and> present_and_fresh 1059 ''btc_price'' (snd (get_market_snapshot (world_up 1000) initial_state))
   \<and> \<not> truthy (fst (get_cached 1060 ''fear_greed'' (snd (get_market_snapshot (world_up 1000) initial_state))))
   \<and> \<not> present_and_fresh 1060 ''fear_greed'' (snd (get_market_snapshot (world_up 1000) initial_state))"
proof -
  have reach: "reachable (snd (get_market_snapshot (world_up 1000) initial_state))"
    by (rule reachable.after_get_market_snapshot [OF reachable.start])
  have fresh: "present_and_fresh 1059 ''btc_price'' (snd (get_market_snapshot (world_up 1000) initial_state))"
    and stale: "\<not> present_and_fresh 1060 ''fear_greed'' (snd (get_market_snapshot (world_up 1000) initial_state))"
    by (simp_all add: snapshot_up present_and_fresh_def CACHE_TTL_def)
  have entries: "cache (snd (get_market_snapshot (world_up 1000) initial_state)) ''btc_price''
     = Some (PFloat (Finite 67890.12), 1000)"
    "cache (snd (get_market_snapshot (world_up 1000) initial_state)) ''fear_greed''
     = Some (PTuple [PInt 38, PStr (fear_greed_label 38)], 1000)"
    by (simp_all add: snapshot_up fear_greed_label_def)
  from cache_invariant [OF reach] fresh stale entries show ?thesis by blast
qed

section \<open>Independent failure\<close>

text \<open>
  Claim C1.  From any reachable state and in any world the composer returns a snapshot:
  its price is what the price fetcher returns, its sentiment fields are the two
  components of what the sentiment fetcher returns in the state the price fetcher left,
  and its timestamp is the capture time.  Each fetcher's result is either absent or
  valid on its own, so one source failing leaves exactly that field absent and the other
  populated.  The sentiment fetcher is called whatever the price fetcher did: when
  neither key is served from the cache, both requests are sent, in order.
\<close>

theorem independent_failure:
  assumes reach: "reachable s"
  shows "\<exists>fv fl.
      fst (fetch_fear_greed w (snd (fetch_btc_price w s))) = PTuple [fv, fl]
    \<and> get_market_snapshot w s =
        (Inr \<lparr>btc_price = fst (fetch_btc_price w s), fear_value = fv, fear_label = fl,
              timestamp = wall_clock w\<rparr>,
         snd (fetch_fear_greed w (snd (fetch_btc_price w s))))
    \<and> (fst (fetch_btc_price w s) = PNone \<or> is_price (fst (fetch_btc_price w s)))
    \<and> (fv = PNone \<and> fl = PNone \<or> is_reading (PTuple [fv, fl]))
    \<and> (\<not> present_and_fresh (now_get_price w) ''btc_price'' s \<and>
        \<not> present_and_fresh (now_get_fear w) ''fear_greed'' s \<longrightarrow>
        requests (snd (get_market_snapshot w s))
          = requests s @ [ticker_request, html_request fear_greed_url])"
proof -
  from reach have inv: "cache_inv s" by (rule reachable_cache_inv)
  then have inv1: "cache_inv (snd (fetch_btc_price w s))" by (rule cache_inv_fetch_btc_price)
  obtain fv fl where pair: "fst (fetch_fear_greed w (snd (fetch_btc_price w s))) = PTuple [fv, fl]"
    and shape: "fv = PNone \<and> fl = PNone \<or> is_reading (PTuple [fv, fl])"
    using fetch_fear_greed_result [OF inv1, of w] by (auto dest: is_reading_pair)
  from pair have snap: "get_market_snapshot w s =
        (Inr \<lparr>btc_price = fst (fetch_btc_price w s), fear_value = fv, fear_label = fl,
              timestamp = wall_clock w\<rparr>,
         snd (fetch_fear_greed w (snd (fetch_btc_price w s))))"
    by (simp add: get_market_snapshot_unfold)
  have log: "requests (snd (get_market_snapshot w s))
          = requests s @ [ticker_request, html_request fear_greed_url]"
    if miss: "\<not> present_and_fresh (now_get_price w) ''btc_price'' s"
       "\<not> present_and_fresh (now_get_fear w) ''fear_greed'' s"
  proof -
    from miss(1) have m1: "\<not> truthy (fst (get_cached (now_get_price w) ''btc_price'' s))"
      by (simp add: truthy_get_cached_price [OF inv])
    have "cache (snd (fetch_btc_price w s)) ''fear_greed'' = cache s ''fear_greed''"
      by (simp add: fetch_btc_price_other_key)
    with miss(2) have "\<not> present_and_fresh (now_get_fear w) ''fear_greed'' (snd (fetch_btc_price w s))"
      by (simp add: present_and_fresh_def)
    then have m2: "\<not> truthy (fst (get_cached (now_get_fear w) ''fear_greed'' (snd (fetch_btc_price w s))))"
      by (simp add: truthy_get_cached_fear [OF inv1])
    show ?thesis
      by (simp add: snd_get_market_snapshot fetch_fear_greed_requests_miss [OF m2]
          fetch_btc_price_requests_miss [OF m1])
  qed
  from pair snap shape log fetch_btc_price_result [OF inv, of w] show ?thesis by blast
qed

theorem independent_failure_witness:
  "get_market_snapshot (world_at 1000 (Inl ConnectionError) (page_ok ''Now 38 (Fear)'')) initial_state
     = (Inr \<lparr>btc_price = PNone, fear_value = PInt 38, fear_label = PStr ''Fear'',
             timestamp = ''2024-01-01 00:00:00''\<rparr>,
        snd (fetch_fear_greed (world_at 1000 (Inl ConnectionError) (page_ok ''Now 38 (Fear)''))
              (snd (fetch_btc_price (world_at 1000 (Inl ConnectionError) (page_ok ''Now 38 (Fear)'')) initial_state))))
   \<and> get_market_snapshot (world_at 1000 (ticker_ok (usd_json (Finite 67890.12))) (Inl Timeout)) initial_state
     = (Inr \<lparr>btc_price = PFloat (Finite 67890.12), fear_value = PNone, fear_label = PNone,
             timestamp = ''2024-01-01 00:00:00''\<rparr>,
        snd (fetch_fear_greed (world_at 1000 (ticker_ok (usd_json (Finite 67890.12))) (Inl Timeout))
              (snd (fetch_btc_price (world_at 1000 (ticker_ok (usd_json (Finite 67890.12))) (Inl Timeout)) initial_state))))
   \<and> requests (snd (get_market_snapshot (world_at 1000 (Inl ConnectionError) (page_ok ''Now 38 (Fear)'')) initial_state))
     = [ticker_request, html_request fear_greed_url]"
proof -
  let ?w1 = "world_at 1000 (Inl ConnectionError) (page_ok ''Now 38 (Fear)'')"
  let ?w2 = "world_at 1000 (ticker_ok (usd_json (Finite 67890.12))) (Inl Timeout)"
  have p1: "fetch_btc_price ?w1 initial_state = (PNone, log_request ticker_request initial_state)"
    by (simp add: world_simps cache_simps price_simps)
  have f1: "fst (fetch_fear_greed ?w1 (log_request ticker_request initial_state))
      = PTuple [PInt 38, PStr ''Fear'']"
    by (simp add: world_simps cache_simps price_simps regex_simps fear_simps)
  have p2: "fetch_btc_price ?w2 initial_state
      = (PFloat (Finite 67890.12),
         set_cached 1000 ''btc_price'' (PFloat (Finite 67890.12)) (log_request ticker_request initial_state))"
    by (simp add: world_simps cache_simps price_simps)
  have f2: "fst (fetch_fear_greed ?w2
       (set_cached 1000 ''btc_price'' (PFloat (Finite 67890.12)) (log_request ticker_request initial_state)))
      = PTuple [PNone, PNone]"
    by (simp add: world_simps cache_simps price_simps regex_simps fear_simps)
  have miss: "\<not> present_and_fresh (now_get_price ?w1) ''btc_price'' initial_state"
    "\<not> present_and_fresh (now_get_fear ?w1) ''fear_greed'' initial_state"
    by (simp_all add: present_and_fresh_def initial_state_def)
  have wc: "wall_clock ?w1 = ''2024-01-01 00:00:00''" "wall_clock ?w2 = ''2024-01-01 00:00:00''"
    by (simp_all add: world_at_def)
  from independent_failure [OF reachable.start, of ?w1] p1 f1 miss wc
  have 1: "get_market_snapshot ?w1 initial_state
     = (Inr \<lparr>btc_price = PNone, fear_value = PInt 38, fear_label = PStr ''Fear'',
             timestamp = ''2024-01-01 00:00:00''\<rparr>,
        snd (fetch_fear_greed ?w1 (snd (fetch_btc_price ?w1 initial_state))))"
    and 3: "requests (snd (get_market_snapshot ?w1 initial_state))
     = [ticker_request, html_request fear_greed_url]"
    by (auto simp add: initial_state_def)
  from independent_failure [OF reachable.start, of ?w2] p2 f2 wc
  have 2: "get_market_snapshot ?w2 initial_state
     = (Inr \<lparr>btc_price = PFloat (Finite 67890.12), fear_value = PNone, fear_label = PNone,
             timestamp = ''2024-01-01 00:00:00''\<rparr>,
        snd (fetch_fear_greed ?w2 (snd (fetch_btc_price ?w2 initial_state))))"
    by auto
  from 1 2 3 show ?thesis by simp
qed

section \<open>Failures become absent values\<close>




section \<open>Idempotent re-read\<close>

text \<open>
  Claim C8, amended.  If a call of the composer returned a snapshot with the price and
  the sentiment value both present, and a second call follows with no change to the
  cache in between, reading the cache while both entries are younger than the TTL, then
  the second call returns the same price, sentiment value and label (only the timestamp
  is new) and leaves the state, and so the log of requests, as it was.
\<close>

theorem idempotent_reread:
  assumes first: "get_market_snapshot w1 s = (Inr snap1, s1)"
      and price_present: "btc_price snap1 \<noteq> PNone"
      and fear_present: "fear_value snap1 \<noteq> PNone"
      and fresh_price: "present_and_fresh (now_get_price w2) ''btc_price'' s1"
      and fresh_fear: "present_and_fresh (now_get_fear w2) ''fear_greed'' s1"
  shows "get_market_snapshot w2 s1 = (Inr (snap1\<lparr>timestamp := wall_clock w2\<rparr>), s1)"
proof -
  let ?p = "fst (fetch_btc_price w1 s)"
  let ?sa = "snd (fetch_btc_price w1 s)"
  let ?fg = "fst (fetch_fear_greed w1 ?sa)"
  from first obtain fv fl where un: "unpack2 ?fg = Inr (fv, fl)"
    and snap1: "snap1 = \<lparr>btc_price = ?p, fear_value = fv, fear_label = fl,
                         timestamp = wall_clock w1\<rparr>"
    and s1: "s1 = snd (fetch_fear_greed w1 ?sa)"
    by (auto simp add: get_market_snapshot_unfold split: sum.splits)
  from price_present snap1 have "?p \<noteq> PNone" by simp
  from fetch_btc_price_cached [OF this]
  obtain ts where tp: "truthy ?p" and cp: "cache ?sa ''btc_price'' = Some (?p, ts)" by blast
  have "cache s1 ''btc_price'' = cache ?sa ''btc_price''"
    unfolding s1 by (rule fetch_fear_greed_other_key) simp
  with cp have cp1: "cache s1 ''btc_price'' = Some (?p, ts)" by simp
  from fear_present snap1 un have "?fg \<noteq> PTuple [PNone, PNone]" by auto
  from fetch_fear_greed_cached [OF this] s1
  obtain ts' where tf: "truthy ?fg" and cf1: "cache s1 ''fear_greed'' = Some (?fg, ts')" by auto
  have a: "fetch_btc_price w2 s1 = (?p, s1)"
    using cp1 tp fresh_price by (rule fetch_btc_price_served)
  have b: "fetch_fear_greed w2 s1 = (?fg, s1)"
    using cf1 tf fresh_fear by (rule fetch_fear_greed_served)
  show ?thesis
    by (simp add: get_market_snapshot_unfold a b un snap1)
qed

theorem idempotent_reread_witness:
  "get_market_snapshot (world_down 1059) (snd (get_market_snapshot (world_up 1000) initial_state))
     = (Inr \<lparr>btc_price = PFloat (Finite 67890.12), fear_value = PInt 38,
             fear_label = PStr ''Fear'', timestamp = ''2024-01-01 00:00:00''\<rparr>,
        snd (get_market_snapshot (world_up 1000) initial_state))
   \<and> requests (snd (get_market_snapshot (world_up 1000) initial_state))
     = [ticker_request, html_request fear_greed_url]"
proof -
  let ?s1 = "\<lparr>cache = [''btc_price'' \<mapsto> (PFloat (Finite 67890.12), 1000),
                ''fear_greed'' \<mapsto> (PTuple [PInt 38, PStr ''Fear''], 1000)],
       requests = [ticker_request, html_request fear_greed_url]\<rparr>"
  let ?snap1 = "\<lparr>btc_price = PFloat (Finite 67890.12), fear_value = PInt 38,
           fear_label = PStr ''Fear'', timestamp = ''2024-01-01 00:00:00''\<rparr>"
  have first: "get_market_snapshot (world_up 1000) initial_state = (Inr ?snap1, ?s1)"
    by (rule snapshot_up)
  have present: "btc_price ?snap1 \<noteq> PNone" "fear_value ?snap1 \<noteq> PNone"
    by simp_all
  have fresh: "present_and_fresh (now_get_price (world_down 1059)) ''btc_price'' ?s1"
    "present_and_fresh (now_get_fear (world_down 1059)) ''fear_greed'' ?s1"
    by (simp_all add: present_and_fresh_def CACHE_TTL_def world_simps)
  from idempotent_reread [OF first present fresh] first
  show ?thesis by (simp add: world_simps)
qed

text \<open>The claim without the amendment fails.  A first call at time 1000 finds both
  sources unreachable and returns three absent fields; nothing is cached.  A second call
  one second later, well within the TTL and with the cache untouched in between, finds
  the sources up: it returns a different price, value and label, and sends two more
  requests.\<close>

theorem idempotent_reread_counterexample:
  "get_market_snapshot (world_down 1000) initial_state =
     (Inr \<lparr>btc_price = PNone, fear_value = PNone, fear_label = PNone,
           timestamp = ''2024-01-01 00:00:00''\<rparr>,
      \<lparr>cache = Map.empty, requests = [ticker_request, html_request fear_greed_url]\<rparr>)
   \<and> get_market_snapshot (world_up 1001)
       \<lparr>cache = Map.empty, requests = [ticker_request, html_request fear_greed_url]\<rparr> =
     (Inr \<lparr>btc_price = PFloat (Finite 67890.12), fear_value = PInt 38,
           fear_label = PStr ''Fear'', timestamp = ''2024-01-01 00:00:00''\<rparr>,
      \<lparr>cache = [''btc_price'' \<mapsto> (PFloat (Finite 67890.12), 1001),
                ''fear_greed'' \<mapsto> (PTuple [PInt 38, PStr ''Fear''], 1001)],
       requests = [ticker_request, html_request fear_greed_url,
                   ticker_request, html_request fear_greed_url]\<rparr>)
   \<and> PFloat (Finite 67890.12) \<noteq> PNone"
  by (simp add: all_simps)

section \<open>Request parameters\<close>

text \<open>
  Claim C7, amended.  Every request the core has sent in a reachable state was made with
  a timeout of 15; it is either the price-ticker GET, which passes no headers, or a
  \<open>fetch_html\<close> GET, which carries the browser-like header set with the configured
  \<open>User-Agent\<close>.
\<close>

theorem request_parameters:
  assumes reach: "reachable s" and sent: "rq \<in> set (requests s)"
  shows "timeout rq = Some 15
     \<and> (rq = \<lparr>url = ''https://blockchain.info/ticker'', headers = None, timeout = Some 15\<rparr>
        \<or> (headers rq = Some browser_headers
            \<and> map_of browser_headers ''User-Agent'' = Some USER_AGENT))"
  using reachable_requests [OF reach] sent
  by (auto simp add: ticker_request_def html_request_def REQUEST_TIMEOUT_def browser_headers_def)

theorem request_parameters_witness:
  "html_request fear_greed_url \<in> set (requests (snd (get_market_snapshot (world_up 1000) initial_state)))
   \<and> timeout (html_request fear_greed_url) = Some 15
   \<and> headers (html_request fear_greed_url) = Some browser_headers
   \<and> map_of browser_headers ''User-Agent'' = Some USER_AGENT
   \<and> ticker_request \<in> set (requests (snd (get_market_snapshot (world_up 1000) initial_state)))
   \<and> timeout ticker_request = Some 15
   \<and> headers ticker_request = None"
proof -
  have reach: "reachable (snd (get_market_snapshot (world_up 1000) initial_state))"
    by (rule reachable.after_get_market_snapshot [OF reachable.start])
  have sent: "html_request fear_greed_url \<in> set (requests (snd (get_market_snapshot (world_up 1000) initial_state)))"
    "ticker_request \<in> set (requests (snd (get_market_snapshot (world_up 1000) initial_state)))"
    by (simp_all add: snapshot_up)
  have distinct: "html_request fear_greed_url
      \<noteq> \<lparr>url = ''https://blockchain.info/ticker'', headers = None, timeout = Some 15\<rparr>"
    by (simp add: html_request_def)
  have none: "headers ticker_request = None"
    by (simp add: ticker_request_def)
  from request_parameters [OF reach sent(1)] request_parameters [OF reach sent(2)] sent distinct none
  show ?thesis by simp
qed

text \<open>The claim without the amendment fails: the request that the price fetcher sends
  on a cache miss has no headers at all.\<close>

theorem request_parameters_counterexample:
  "requests (snd (fetch_btc_price (world_up 1000) initial_state))
     = [\<lparr>url = ''https://blockchain.info/ticker'', headers = None, timeout = Some 15\<rparr>]"
  by (simp add: world_simps cache_simps price_simps)

end
